theory Spec2Isabelle
  imports Main
begin

section \<open>Text helpers\<close>

text \<open>
  Python \<open>str\<close> values are modelled as \<open>string\<close>. Characters outside ASCII are carried
  as their UTF-8 bytes; the cross mark that prefixes the program's error messages is the
  three bytes below.
\<close>

definition cross_mark :: string where
  "cross_mark = [CHR 0xE2, CHR 0x9D, CHR 0x8C]"

text \<open>\<open>sep.join(xs)\<close>\<close>

fun join :: "string \<Rightarrow> string list \<Rightarrow> string" where
  "join sep [] = []"
| "join sep [x] = x"
| "join sep (x # y # ys) = x @ sep @ join sep (y # ys)"

text \<open>
  A Python string is a sequence of code points; in the byte string that carries it each
  code point is a lead byte followed by its continuation bytes (0x80..0xBF).
\<close>

definition is_cont :: "char \<Rightarrow> bool" where
  "is_cont c = (128 \<le> (of_char c :: nat) \<and> (of_char c :: nat) < 192)"

function utf8_chars :: "string \<Rightarrow> string list" where
  "utf8_chars [] = []"
| "utf8_chars (c # cs) = (c # takeWhile is_cont cs) # utf8_chars (dropWhile is_cont cs)"
  by pat_completeness auto
termination
  by (relation "measure length") (auto simp: less_Suc_eq_le length_dropWhile_le)

text \<open>
  The code points Python counts as whitespace, in UTF-8: tab to carriage return, the four
  separators 0x1C..0x1F, the space, U+0085, U+00A0, U+1680, U+2000..U+200A, U+2028, U+2029,
  U+202F, U+205F and U+3000.
\<close>

definition is_space :: "string \<Rightarrow> bool" where
  "is_space t =
     (case t of
        [c] \<Rightarrow> of_char c \<in> set [9, 10, 11, 12, 13, 28, 29, 30, 31, 32 :: nat]
      | [c, d] \<Rightarrow> c = CHR 0xC2 \<and> (d = CHR 0x85 \<or> d = CHR 0xA0)
      | [c, d, e] \<Rightarrow>
          (c = CHR 0xE1 \<and> d = CHR 0x9A \<and> e = CHR 0x80)
          \<or> (c = CHR 0xE2 \<and> d = CHR 0x80
               \<and> ((128 \<le> (of_char e :: nat) \<and> (of_char e :: nat) \<le> 138)
                    \<or> e = CHR 0xA8 \<or> e = CHR 0xA9 \<or> e = CHR 0xAF))
          \<or> (c = CHR 0xE2 \<and> d = CHR 0x81 \<and> e = CHR 0x9F)
          \<or> (c = CHR 0xE3 \<and> d = CHR 0x80 \<and> e = CHR 0x80)
      | _ \<Rightarrow> False)"

text \<open>\<open>str.strip()\<close>: leading and trailing whitespace removed.\<close>

definition strip :: "string \<Rightarrow> string" where
  "strip s = concat (rev (dropWhile is_space (rev (dropWhile is_space (utf8_chars s)))))"

section \<open>utils.py: the configuration loader\<close>

text \<open>The exceptions \<open>read_properties_file\<close> can leave with, each with its message.\<close>

datatype config_error =
    FileNotFoundError string
  | KeyError string
  | ValueError string
  | ParsingError string
  | InterpolationError string

text \<open>
  What \<open>configparser.ConfigParser\<close> holds after \<open>config.read(file_path)\<close>: the options of
  the \<open>DEFAULT\<close> section, each with what \<open>config["DEFAULT"][key]\<close> gives for it (the
  value after interpolation, or the exception the interpolation of a value with a stray
  \<open>%\<close> raises), and the names of the other sections.
\<close>

record config_parser =
  defaults :: "(string \<times> (config_error + string)) list"
  sections :: "string list"

text \<open>
  The file system as the loader sees it: the path does not exist, the parser rejects the
  text (\<open>config.read\<close> raises), or the parser accepts it.
\<close>

datatype config_file =
    NoFile
  | Unparsable string
  | Parsed config_parser

text \<open>
  \<open>name in config\<close>: \<open>ConfigParser.__contains__\<close> answers True for the default section's
  name whether or not the file wrote a \<open>[DEFAULT]\<close> header.
\<close>

definition config_contains :: "config_parser \<Rightarrow> string \<Rightarrow> bool" where
  "config_contains config name = (name = ''DEFAULT'' \<or> name \<in> set (sections config))"

text \<open>
  \<open>key in config["DEFAULT"]\<close>, which looks only at the option names, and
  \<open>config["DEFAULT"][key]\<close>, which reads the value.
\<close>

definition has_option :: "config_parser \<Rightarrow> string \<Rightarrow> bool" where
  "has_option config key = (map_of (defaults config) key \<noteq> None)"

definition get_option :: "config_parser \<Rightarrow> string \<Rightarrow> config_error + string" where
  "get_option config key =
     (case map_of (defaults config) key of
        None \<Rightarrow> Inl (KeyError key)
      | Some r \<Rightarrow> r)"

record settings =
  db_host :: string
  db_port :: int
  db_user :: string
  db_password :: string
  db_name :: string
  gemini_api_key :: string

definition required_keys :: "string list" where
  "required_keys =
     [''db_host'', ''db_port'', ''db_user'', ''db_password'', ''db_name'', ''gemini_api_key'']"

definition missing_keys :: "config_parser \<Rightarrow> string list" where
  "missing_keys config = filter (\<lambda>key. \<not> has_option config key) required_keys"

definition missing_keys_message :: "string list \<Rightarrow> string" where
  "missing_keys_message ks =
     cross_mark @ '' Missing keys in config file: '' @ join '', '' ks"

definition and_then :: "'e + 'a \<Rightarrow> ('a \<Rightarrow> 'e + 'b) \<Rightarrow> 'e + 'b" where
  "and_then r f = (case r of Inl e \<Rightarrow> Inl e | Inr x \<Rightarrow> f x)"

text \<open>
  The loader takes Python's builtin \<open>int\<close> on a string as its parameter \<open>to_int\<close>: which
  texts it reads (digits of any script, underscores, a bound on the number of digits) and
  the \<open>ValueError\<close> it raises otherwise are the interpreter's.
\<close>

definition int_option ::
  "(string \<Rightarrow> config_error + int) \<Rightarrow> config_parser \<Rightarrow> string \<Rightarrow> config_error + int" where
  "int_option to_int config key = and_then (get_option config key) to_int"

definition read_properties_file ::
  "(string \<Rightarrow> config_error + int) \<Rightarrow> string \<Rightarrow> config_file \<Rightarrow> config_error + settings" where
  "read_properties_file to_int file_path file =
     (case file of
        NoFile \<Rightarrow>
          Inl (FileNotFoundError
                 (cross_mark @ '' The file '' @ [CHR 0x27] @ file_path @ [CHR 0x27]
                    @ '' does not exist.''))
      | Unparsable msg \<Rightarrow> Inl (ParsingError msg)
      | Parsed config \<Rightarrow>
          if \<not> config_contains config ''DEFAULT'' then
            Inl (KeyError (cross_mark
              @ '' Missing '' @ [CHR 0x27] @ ''DEFAULT'' @ [CHR 0x27]
              @ '' section in config file. Ensure the file is correctly formatted.''))
          else if missing_keys config \<noteq> [] then
            Inl (KeyError (missing_keys_message (missing_keys config)))
          else
            and_then (get_option config ''db_host'') (\<lambda>host.
            and_then (int_option to_int config ''db_port'') (\<lambda>port.
            and_then (get_option config ''db_user'') (\<lambda>user.
            and_then (get_option config ''db_password'') (\<lambda>password.
            and_then (get_option config ''db_name'') (\<lambda>name.
            and_then (get_option config ''gemini_api_key'') (\<lambda>api_key.
              Inr \<lparr> db_host = host, db_port = port, db_user = user,
                    db_password = password, db_name = name,
                    gemini_api_key = api_key \<rparr>)))))))"

section \<open>Python values\<close>

text \<open>
  The values \<open>db_chain.run\<close> can hand to the page: \<open>None\<close>, booleans, integers, strings,
  lists, tuples and dictionaries with string keys (a dictionary keeps its insertion order,
  so it is an association list; Python never holds one key twice).
\<close>

datatype scalar = SNone | SBool bool | SInt int | SStr string

datatype pyval =
    Scalar scalar
  | PList "pyval list"
  | PTuple "pyval list"
  | PDict "(string \<times> pyval) list"

text \<open>Truth value testing (\<open>not response\<close>, \<open>response or default\<close>, \<open>and response\<close>).\<close>

fun scalar_truthy :: "scalar \<Rightarrow> bool" where
  "scalar_truthy SNone = False"
| "scalar_truthy (SBool b) = b"
| "scalar_truthy (SInt i) = (i \<noteq> 0)"
| "scalar_truthy (SStr s) = (s \<noteq> [])"

fun truthy :: "pyval \<Rightarrow> bool" where
  "truthy (Scalar v) = scalar_truthy v"
| "truthy (PList xs) = (xs \<noteq> [])"
| "truthy (PTuple xs) = (xs \<noteq> [])"
| "truthy (PDict kvs) = (kvs \<noteq> [])"

text \<open>\<open>isinstance(x, list)\<close>, \<open>isinstance(x, tuple)\<close>, \<open>isinstance(x, dict)\<close>\<close>

fun is_list :: "pyval \<Rightarrow> bool" where
  "is_list (PList xs) = True"
| "is_list v = False"

fun is_tuple :: "pyval \<Rightarrow> bool" where
  "is_tuple (PTuple xs) = True"
| "is_tuple v = False"

fun is_dict :: "pyval \<Rightarrow> bool" where
  "is_dict (PDict kvs) = True"
| "is_dict v = False"

fun type_name :: "pyval \<Rightarrow> string" where
  "type_name (Scalar SNone) = ''NoneType''"
| "type_name (Scalar (SBool b)) = ''bool''"
| "type_name (Scalar (SInt i)) = ''int''"
| "type_name (Scalar (SStr s)) = ''str''"
| "type_name (PList xs) = ''list''"
| "type_name (PTuple xs) = ''tuple''"
| "type_name (PDict kvs) = ''dict''"

text \<open>
  An exception as the page observes it: its class and \<open>str(e)\<close>. The text of
  \<open>traceback.format_exc()\<close> depends on the interpreter's stack and is a parameter of the
  page model.
\<close>

datatype py_exn = Raised (exn_class: string) (exn_str: string)

definition quoted :: "string \<Rightarrow> string" where
  "quoted s = [CHR 0x27] @ s @ [CHR 0x27]"

section \<open>The pandas tables the page builds\<close>

text \<open>
  A \<open>pandas.DataFrame\<close> as far as the page depends on it: its column labels (a name, or a
  position when pandas numbers the columns itself), the number of its rows, and the data it
  was built from. What pandas stores in a cell (it may turn \<open>1\<close> beside \<open>None\<close> into
  \<open>1.0\<close> beside \<open>NaN\<close>) is not part of the model.
\<close>

datatype label = Name string | Pos nat

record dataframe =
  columns :: "label list"
  n_rows :: nat
  built_from :: pyval

text \<open>
  What one run of the script takes from outside the session.
  \<^item> \<open>chain\<close>: the result of \<open>create_conversational_chain()\<close>, an exception or the chain
    with its \<open>run\<close>;
  \<^item> \<open>image_file\<close>: the encoded bytes of the logo file, if it can be opened;
  \<^item> \<open>format_exc\<close>: the text \<open>traceback.format_exc()\<close> gives for an exception;
  \<^item> \<open>st_dataframe\<close>: the exception \<open>st.dataframe(df)\<close> raises for a table it cannot
    serialise (one holding an integer beyond 64 bits, say), \<open>None\<close> when it shows it;
  \<^item> \<open>keys_error\<close>: the exception pandas raises when it is given, among dicts, an element
    that is not a mapping (its class differs between pandas versions);
  \<^item> \<open>mixed_rows\<close>: what \<open>pd.DataFrame\<close> makes of a list that starts with a tuple and
    holds an element that is not a tuple;
  \<^item> \<open>int_max_str_digits\<close> and \<open>str_limit_error\<close>: the interpreter's bound on the digits
    of an integer turned into text (0 for no bound) and the \<open>ValueError\<close> beyond it.
\<close>

record env =
  chain :: "py_exn + (string \<Rightarrow> py_exn + pyval)"
  image_file :: "string option"
  format_exc :: "py_exn \<Rightarrow> string"
  st_dataframe :: "dataframe \<Rightarrow> py_exn option"
  keys_error :: "pyval \<Rightarrow> py_exn"
  mixed_rows :: "pyval list \<Rightarrow> py_exn + dataframe"
  int_max_str_digits :: nat
  str_limit_error :: py_exn

text \<open>\<open>str\<close> of a scalar, as an f-string inserts it.\<close>

function str_nat :: "nat \<Rightarrow> string" where
  "str_nat n =
     (if n < 10 then [char_of (48 + n)]
      else str_nat (n div 10) @ [char_of (48 + n mod 10)])"
  by pat_completeness auto
termination
  by (relation "measure (\<lambda>n. n)") auto

definition str_int :: "env \<Rightarrow> int \<Rightarrow> py_exn + string" where
  "str_int ev i =
     (let digits = str_nat (nat \<bar>i\<bar>) in
      if int_max_str_digits ev \<noteq> 0 \<and> int_max_str_digits ev < length digits
      then Inl (str_limit_error ev)
      else Inr (if i < 0 then CHR ''-'' # digits else digits))"

fun str_scalar :: "env \<Rightarrow> scalar \<Rightarrow> py_exn + string" where
  "str_scalar ev SNone = Inr ''None''"
| "str_scalar ev (SBool b) = Inr (if b then ''True'' else ''False'')"
| "str_scalar ev (SInt i) = str_int ev i"
| "str_scalar ev (SStr s) = Inr s"

text \<open>Run a fallible function over a list; the first failure is the result.\<close>

fun collect :: "('a \<Rightarrow> 'e + 'b) \<Rightarrow> 'a list \<Rightarrow> 'e + 'b list" where
  "collect f [] = Inr []"
| "collect f (x # xs) =
     and_then (f x) (\<lambda>y. and_then (collect f xs) (\<lambda>ys. Inr (y # ys)))"

text \<open>The distinct elements in order of first appearance.\<close>

definition first_seen :: "'a list \<Rightarrow> 'a list" where
  "first_seen xs = rev (remdups (rev xs))"

text \<open>\<open>pd.DataFrame({name: xs})\<close> for a list \<open>xs\<close>: one column, one row per element.\<close>

definition frame_of_column :: "string \<Rightarrow> pyval list \<Rightarrow> dataframe" where
  "frame_of_column name xs =
     \<lparr> columns = [Name name], n_rows = length xs, built_from = PList xs \<rparr>"

text \<open>
  \<open>pd.DataFrame(data)\<close> for a list whose first element is a dict: pandas reads the keys of
  every element, in order, and raises at the first element that is not a mapping; it takes
  as columns the keys in order of first appearance and makes one row per element.
\<close>

fun dict_items :: "env \<Rightarrow> pyval \<Rightarrow> py_exn + (string \<times> pyval) list" where
  "dict_items ev (PDict kvs) = Inr kvs"
| "dict_items ev v = Inl (keys_error ev v)"

definition frame_of_dicts :: "env \<Rightarrow> pyval list \<Rightarrow> py_exn + dataframe" where
  "frame_of_dicts ev data =
     and_then (collect (dict_items ev) data) (\<lambda>ds.
       Inr \<lparr> columns = map Name (first_seen (concat (map (map fst) ds))),
             n_rows = length ds,
             built_from = PList data \<rparr>)"

text \<open>
  \<open>pd.DataFrame(data)\<close> for a list whose first element is a tuple. When every element is
  a tuple there is one row per tuple and the columns are the positions up to the longest
  one; otherwise the outcome is the library's (\<open>mixed_rows\<close>).
\<close>

fun tuple_len :: "pyval \<Rightarrow> nat" where
  "tuple_len (PTuple xs) = length xs"
| "tuple_len v = 0"

definition frame_of_tuples :: "env \<Rightarrow> pyval list \<Rightarrow> py_exn + dataframe" where
  "frame_of_tuples ev data =
     (if list_all is_tuple data
      then Inr \<lparr> columns = map Pos [0..<fold max (map tuple_len data) 0],
                 n_rows = length data,
                 built_from = PList data \<rparr>
      else mixed_rows ev data)"

section \<open>app.py: the response normalizer\<close>

text \<open>The session state of the page and what it leaves outside the process.\<close>

record world =
  history :: "string list"
  export_data :: "dataframe option"
  chatbot_image :: "string option"
  error_log :: "string list"
  run_calls :: "string list"

text \<open>
  \<open>history\<close> is \<open>st.session_state["history"]\<close>; a session that has no such key yet is
  the one with \<open>history = []\<close>, which is what lines 73-74 make of it. \<open>export_data\<close> and
  \<open>chatbot_image\<close> are the keys of the same names, \<open>None\<close> when absent. \<open>error_log\<close> is
  the blocks appended to \<open>error_log.txt\<close> so far, and \<open>run_calls\<close> records the questions
  passed to \<open>db_chain.run\<close>, oldest first.
\<close>

text \<open>What \<open>format_and_display_response\<close> puts on the page.\<close>

datatype display = Warning string | Table dataframe

text \<open>Lines 14-24: the table built from a response that passed the emptiness test.\<close>

definition response_frame :: "env \<Rightarrow> pyval \<Rightarrow> py_exn + dataframe" where
  "response_frame ev response =
     (case response of
        PList xs \<Rightarrow>
          (case xs of
             [] \<Rightarrow> Inl (Raised ''IndexError'' ''list index out of range'')
           | x # rest \<Rightarrow>
               if is_tuple x then frame_of_tuples ev xs
               else if is_dict x then frame_of_dicts ev xs
               else Inr (frame_of_column ''Response'' xs))
      | PDict kvs \<Rightarrow> frame_of_dicts ev [response]
      | other \<Rightarrow> Inr (frame_of_column ''Response'' [response]))"

text \<open>
  The whole function: the notice for a response that tests false; otherwise the table is
  built (lines 14-24), shown (line 26) and only then stored (line 27), so an exception
  while it is built or shown leaves the export buffer as it was.
\<close>

definition format_and_display_response ::
  "env \<Rightarrow> pyval \<Rightarrow> world \<Rightarrow> py_exn + display \<times> world" where
  "format_and_display_response ev response w =
     (if \<not> truthy response then Inr (Warning ''No data available.'', w)
      else and_then (response_frame ev response) (\<lambda>df.
             case st_dataframe ev df of
               Some e \<Rightarrow> Inl e
             | None \<Rightarrow> Inr (Table df, w\<lparr>export_data := Some df\<rparr>)))"

section \<open>app.py: the session loop\<close>

text \<open>The widgets of one run: the Send button, the text area, the Clear Chat button.\<close>

record ui =
  submit_button :: bool
  user_input :: string
  clear_button :: bool

text \<open>
  How a run of \<open>main\<close> ends: the connection failed and the page stops at the sidebar
  message; an exception left the script; \<open>st.rerun()\<close> restarted it; or it ran to its end,
  offering the export buffer for download when there is one.
\<close>

datatype outcome =
    ConnectionFailed string
  | Crashed py_exn
  | Rerun
  | Finished "dataframe option"

definition append_history :: "string \<Rightarrow> world \<Rightarrow> world" where
  "append_history msg w = w\<lparr>history := history w @ [msg]\<rparr>"

text \<open>
  \<open>f"{response or 'No data found'}"\<close> for a response that is not a non-empty collection:
  the default for one that tests false, \<open>str\<close> of the scalar otherwise.
\<close>

fun response_text :: "env \<Rightarrow> pyval \<Rightarrow> py_exn + string" where
  "response_text ev (Scalar v) =
     (if scalar_truthy v then str_scalar ev v else Inr ''No data found'')"
| "response_text ev v = Inr ''No data found''"

definition error_message :: "py_exn \<Rightarrow> string" where
  "error_message e = cross_mark @ '' Error: '' @ exn_str e"

text \<open>Lines 111-122: the handler of the turn's \<open>try\<close>.\<close>

definition on_exception :: "env \<Rightarrow> py_exn \<Rightarrow> world \<Rightarrow> world" where
  "on_exception ev e w =
     (append_history (''**Bot:** '' @ error_message e) w)
       \<lparr>error_log := error_log w @ [[CHR 0x0A] @ format_exc ev e @ [CHR 0x0A]]\<rparr>"

text \<open>Lines 100-122: one turn, for the text the user sent.\<close>

definition turn :: "env \<Rightarrow> (string \<Rightarrow> py_exn + pyval) \<Rightarrow> string \<Rightarrow> world \<Rightarrow> world" where
  "turn ev run text w =
     (let w0 = w\<lparr>run_calls := run_calls w @ [text]\<rparr> in
      case run text of
        Inl e \<Rightarrow> on_exception ev e w0
      | Inr response \<Rightarrow>
          let w1 = append_history (''**You:** '' @ text) w0 in
          if (is_list response \<or> is_tuple response \<or> is_dict response) \<and> truthy response
          then
            let w2 = append_history ''**Bot:** (See table below)'' w1 in
            (case format_and_display_response ev response w2 of
               Inl e \<Rightarrow> on_exception ev e w2
             | Inr (shown, w3) \<Rightarrow> w3)
          else
            (case response_text ev response of
               Inl e \<Rightarrow> on_exception ev e w1
             | Inr answer \<Rightarrow> append_history (''**Bot:** '' @ answer) w1))"

text \<open>\<open>export_to_excel\<close>: the table offered for download, if the session holds one.\<close>

definition export_to_excel :: "world \<Rightarrow> dataframe option" where
  "export_to_excel w = export_data w"

definition main :: "env \<Rightarrow> ui \<Rightarrow> world \<Rightarrow> outcome \<times> world" where
  "main ev u w =
     (case chain ev of
        Inl e \<Rightarrow> (ConnectionFailed (''Connection failed: '' @ exn_str e), w)
      | Inr run \<Rightarrow>
          (case (if chatbot_image w = None then image_file ev else chatbot_image w) of
             None \<Rightarrow>
               (Crashed (Raised ''FileNotFoundError''
                  (''[Errno 2] No such file or directory: '' @ quoted ''195.png'')), w)
           | Some img \<Rightarrow>
               let w1 = w\<lparr>chatbot_image := Some img\<rparr> in
               if submit_button u \<and> strip (user_input u) \<noteq> [] then
                 (Rerun, turn ev run (user_input u) w1)
               else if clear_button u then
                 (Rerun, w1\<lparr>history := []\<rparr>)
               else (Finished (export_to_excel w1), w1)))"

section \<open>Example inputs\<close>

text \<open>
  A reading of port texts that knows the one port the examples use; it refuses every other
  text, and no example reads another.
\<close>

definition example_int :: "string \<Rightarrow> config_error + int" where
  "example_int s =
     (if s = ''8123'' then Inr 8123
      else Inl (ValueError (''invalid literal for int() with base 10: '' @ quoted s)))"

text \<open>A configuration file that sets only two of the required keys.\<close>

definition example_partial :: config_parser where
  "example_partial =
     \<lparr> defaults = [(''db_host'', Inr ''h''), (''db_user'', Inr ''u'')], sections = [] \<rparr>"

text \<open>A configuration file that sets every required key, \<open>db_host\<close> to the empty string.\<close>

definition example_empty_host :: config_parser where
  "example_empty_host =
     \<lparr> defaults = [(''db_host'', Inr []), (''db_port'', Inr ''8123''),
                   (''db_user'', Inr ''u''), (''db_password'', Inr ''p''),
                   (''db_name'', Inr ''d''), (''gemini_api_key'', Inr ''k'')],
       sections = [] \<rparr>"

text \<open>A configuration file that sets every required key to a usable value.\<close>

definition example_complete :: config_parser where
  "example_complete =
     \<lparr> defaults = [(''db_host'', Inr ''localhost''), (''db_port'', Inr ''8123''),
                   (''db_user'', Inr ''u''), (''db_password'', Inr ''p''),
                   (''db_name'', Inr ''d''), (''gemini_api_key'', Inr ''k'')],
       sections = [] \<rparr>"

text \<open>
  A configuration file whose password \<open>p%ss\<close> the parser stores and cannot interpolate.
\<close>

definition example_percent :: config_parser where
  "example_percent =
     \<lparr> defaults = [(''db_host'', Inr ''localhost''), (''db_port'', Inr ''8123''),
                   (''db_user'', Inr ''u''),
                   (''db_password'', Inl (InterpolationError ''p%ss'')),
                   (''db_name'', Inr ''d''), (''gemini_api_key'', Inr ''k'')],
       sections = [] \<rparr>"

text \<open>
  A chain whose \<open>run\<close> raises on the question \<open>boom\<close>, returns one record for \<open>count\<close> and
  a plain sentence for anything else.
\<close>

definition example_run :: "string \<Rightarrow> py_exn + pyval" where
  "example_run question =
     (if question = ''boom'' then Inl (Raised ''RuntimeError'' ''db down'')
      else if question = ''count'' then Inr (PList [PDict [(''count'', Scalar (SInt 42))]])
      else Inr (Scalar (SStr ''Hi there'')))"

text \<open>
  Surroundings in which the chain is built, the logo is readable, every table is shown,
  pandas answers a non-mapping among dicts with the \<open>AttributeError\<close> of its 2.x versions,
  and integers have up to 4300 digits. Rows that are not all tuples, which no example
  uses, are refused.
\<close>

definition example_env :: env where
  "example_env =
     \<lparr> chain = Inr example_run,
       image_file = Some ''iVBORw0KGgo='',
       format_exc = (\<lambda>e. ''Traceback (most recent call last): '' @ exn_class e
                            @ '': '' @ exn_str e),
       st_dataframe = (\<lambda>df. None),
       keys_error = (\<lambda>v. Raised ''AttributeError''
                       (quoted (type_name v) @ '' object has no attribute '' @ quoted ''keys'')),
       mixed_rows = (\<lambda>data. Inl (Raised ''TypeError'' ''rows of different kinds'')),
       int_max_str_digits = 4300,
       str_limit_error =
         Raised ''ValueError'' ''Exceeds the limit (4300 digits) for integer string conversion'' \<rparr>"

text \<open>The same surroundings, except that no table can be shown.\<close>

definition example_env_no_display :: env where
  "example_env_no_display =
     example_env\<lparr>st_dataframe := (\<lambda>df. Some (Raised ''OverflowError'' ''int too big to convert''))\<rparr>"

text \<open>The session after the question \<open>count\<close> was answered with a table.\<close>

definition example_frame :: dataframe where
  "example_frame =
     \<lparr> columns = [Name ''count''], n_rows = 1,
       built_from = PList [PDict [(''count'', Scalar (SInt 42))]] \<rparr>"

definition example_world :: world where
  "example_world =
     \<lparr> history = [''**You:** count'', ''**Bot:** (See table below)''],
       export_data = Some example_frame,
       chatbot_image = Some ''iVBORw0KGgo='',
       error_log = [],
       run_calls = [''count''] \<rparr>"

text \<open>The user presses Send with a text in the box; the user presses Clear Chat.\<close>

definition send :: "string \<Rightarrow> ui" where
  "send text = \<lparr> submit_button = True, user_input = text, clear_button = False \<rparr>"

definition clear_chat :: ui where
  "clear_chat = \<lparr> submit_button = False, user_input = [], clear_button = True \<rparr>"

text \<open>A list of two plain strings and the table the page builds for it.\<close>

definition two_strings :: pyval where
  "two_strings = PList [Scalar (SStr ''a''), Scalar (SStr ''b'')]"

definition two_strings_frame :: dataframe where
  "two_strings_frame =
     \<lparr> columns = [Name ''Response''], n_rows = 2, built_from = two_strings \<rparr>"







text \<open>A list that starts with a record and goes on with an integer.\<close>

definition mixed_list :: pyval where
  "mixed_list = PList [PDict [(''a'', Scalar (SInt 1))], Scalar (SInt 5)]"

section \<open>Properties of the configuration loader\<close>

lemma join_contains: "k \<in> set ks \<Longrightarrow> \<exists>a b. join sep ks = a @ k @ b"
proof (induction sep ks rule: join.induct)
  case (1 sep)
  then show ?case by simp
next
  case (2 sep x)
  then have "join sep [x] = [] @ k @ []" by simp
  then show ?case by blast
next
  case (3 sep x y ys)
  show ?case
  proof (cases "k = x")
    case True
    then have "join sep (x # y # ys) = [] @ k @ (sep @ join sep (y # ys))" by simp
    then show ?thesis by blast
  next
    case False
    with 3 obtain a b where "join sep (y # ys) = a @ k @ b" by auto
    then have "join sep (x # y # ys) = (x @ sep @ a) @ k @ b" by simp
    then show ?thesis by blast
  qed
qed

lemma message_contains:
  assumes "k \<in> set ks"
  shows "\<exists>a b. missing_keys_message ks = a @ k @ b"
proof -
  from assms obtain a b where "join '', '' ks = a @ k @ b"
    using join_contains by blast
  then have "missing_keys_message ks
               = (cross_mark @ '' Missing keys in config file: '' @ a) @ k @ b"
    by (simp add: missing_keys_message_def)
  then show ?thesis by blast
qed

lemma missing_keys_Nil_iff:
  "missing_keys config = [] \<longleftrightarrow> (\<forall>key \<in> set required_keys. has_option config key)"
  by (auto simp: missing_keys_def filter_empty_conv)

text \<open>
  C6. When the parsed file lacks a required key, \<open>read_properties_file\<close> raises a
  \<open>KeyError\<close> whose message is built from the list of all required keys that are absent,
  in the order of \<open>required_keys\<close>: the listed keys are exactly the absent ones, and the
  name of every absent required key occurs in the message.
\<close>

theorem read_properties_file_reports_all_missing:
  assumes "k \<in> set required_keys" and "\<not> has_option config k"
  shows "read_properties_file to_int file_path (Parsed config)
           = Inl (KeyError (missing_keys_message (missing_keys config)))
         \<and> set (missing_keys config) = {key \<in> set required_keys. \<not> has_option config key}
         \<and> (\<forall>key \<in> set required_keys. \<not> has_option config key \<longrightarrow>
               (\<exists>a b. missing_keys_message (missing_keys config) = a @ key @ b))"
proof -
  have m: "set (missing_keys config) = {key \<in> set required_keys. \<not> has_option config key}"
    by (auto simp: missing_keys_def)
  with assms have ne: "missing_keys config \<noteq> []" by auto
  have r: "read_properties_file to_int file_path (Parsed config)
           = Inl (KeyError (missing_keys_message (missing_keys config)))"
    using ne by (simp add: read_properties_file_def config_contains_def)
  have c: "\<forall>key \<in> set required_keys. \<not> has_option config key \<longrightarrow>
               (\<exists>a b. missing_keys_message (missing_keys config) = a @ key @ b)"
    using m message_contains by blast
  from r m c show ?thesis by blast
qed

theorem read_properties_file_reports_all_missing_witness:
  "read_properties_file example_int ''config.properties'' (Parsed example_partial)
     = Inl (KeyError (cross_mark
         @ '' Missing keys in config file: db_port, db_password, db_name, gemini_api_key''))"
  using read_properties_file_reports_all_missing
          [of "''db_port''" example_partial example_int "''config.properties''"]
  by (simp add: required_keys_def has_option_def example_partial_def missing_keys_def
        missing_keys_message_def)

text \<open>
  C3, as stated, fails: a file in which \<open>db_host\<close> is present with an empty value is
  accepted, and the returned settings hold the empty host.
\<close>

theorem read_properties_file_empty_value_counterexample:
  "read_properties_file example_int ''config.properties'' (Parsed example_empty_host)
     = Inr \<lparr> db_host = [], db_port = 8123, db_user = ''u'', db_password = ''p'',
             db_name = ''d'', gemini_api_key = ''k'' \<rparr>"
  by (simp add: read_properties_file_def config_contains_def missing_keys_def
        required_keys_def has_option_def get_option_def int_option_def and_then_def
        example_empty_host_def example_int_def)

text \<open>
  C3, amended. \<open>read_properties_file\<close> accepts only when all six required keys are present:
  whenever it returns settings, the file was parsed, every required key is an option of it,
  and each field holds the value read for its key (for \<open>db_port\<close> the integer read from
  it), empty or not; and when any required key is absent, loading fails.
\<close>

theorem read_properties_file_accepts_only_present:
  "(read_properties_file to_int file_path file = Inr st \<longrightarrow>
      (\<exists>config port_text. file = Parsed config
         \<and> (\<forall>key \<in> set required_keys. has_option config key)
         \<and> get_option config ''db_host'' = Inr (db_host st)
         \<and> get_option config ''db_port'' = Inr port_text
         \<and> to_int port_text = Inr (db_port st)
         \<and> get_option config ''db_user'' = Inr (db_user st)
         \<and> get_option config ''db_password'' = Inr (db_password st)
         \<and> get_option config ''db_name'' = Inr (db_name st)
         \<and> get_option config ''gemini_api_key'' = Inr (gemini_api_key st)))
   \<and> ((\<exists>key \<in> set required_keys. \<not> has_option absent key) \<longrightarrow>
        (\<exists>e. read_properties_file to_int file_path (Parsed absent) = Inl e))"
proof (intro conjI impI)
  assume ok: "read_properties_file to_int file_path file = Inr st"
  then obtain config where p: "file = Parsed config"
    by (cases "file") (simp_all add: read_properties_file_def)
  have all: "\<forall>key \<in> set required_keys. has_option config key"
  proof (rule ccontr)
    assume "\<not> (\<forall>key \<in> set required_keys. has_option config key)"
    then have "missing_keys config \<noteq> []" by (simp add: missing_keys_Nil_iff)
    with ok p show False by (simp add: read_properties_file_def config_contains_def)
  qed
  then have m: "missing_keys config = []" by (simp add: missing_keys_Nil_iff)
  from ok p m have
    "\<exists>port_text. get_option config ''db_host'' = Inr (db_host st)
         \<and> get_option config ''db_port'' = Inr port_text
         \<and> to_int port_text = Inr (db_port st)
         \<and> get_option config ''db_user'' = Inr (db_user st)
         \<and> get_option config ''db_password'' = Inr (db_password st)
         \<and> get_option config ''db_name'' = Inr (db_name st)
         \<and> get_option config ''gemini_api_key'' = Inr (gemini_api_key st)"
    by (cases st)
       (auto simp: read_properties_file_def config_contains_def int_option_def and_then_def
             split: sum.splits)
  with p all show
    "\<exists>config port_text. file = Parsed config
         \<and> (\<forall>key \<in> set required_keys. has_option config key)
         \<and> get_option config ''db_host'' = Inr (db_host st)
         \<and> get_option config ''db_port'' = Inr port_text
         \<and> to_int port_text = Inr (db_port st)
         \<and> get_option config ''db_user'' = Inr (db_user st)
         \<and> get_option config ''db_password'' = Inr (db_password st)
         \<and> get_option config ''db_name'' = Inr (db_name st)
         \<and> get_option config ''gemini_api_key'' = Inr (gemini_api_key st)"
    by auto
next
  assume "\<exists>key \<in> set required_keys. \<not> has_option absent key"
  then have "missing_keys absent \<noteq> []" by (simp add: missing_keys_Nil_iff)
  then have "read_properties_file to_int file_path (Parsed absent)
               = Inl (KeyError (missing_keys_message (missing_keys absent)))"
    by (simp add: read_properties_file_def config_contains_def)
  then show "\<exists>e. read_properties_file to_int file_path (Parsed absent) = Inl e" by simp
qed

theorem read_properties_file_accepts_only_present_witness:
  "read_properties_file example_int ''config.properties'' (Parsed example_complete)
     = Inr \<lparr> db_host = ''localhost'', db_port = 8123, db_user = ''u'', db_password = ''p'',
             db_name = ''d'', gemini_api_key = ''k'' \<rparr>
   \<and> get_option example_complete ''db_host'' = Inr ''localhost''
   \<and> (\<exists>e. read_properties_file example_int ''config.properties'' (Parsed example_partial)
            = Inl e)"
proof -
  let ?st = "\<lparr> db_host = ''localhost'', db_port = 8123, db_user = ''u'', db_password = ''p'',
             db_name = ''d'', gemini_api_key = ''k'' \<rparr>"
  note t = read_properties_file_accepts_only_present
             [of example_int "''config.properties''" "Parsed example_complete" ?st
                 example_partial]
  have ok: "read_properties_file example_int ''config.properties'' (Parsed example_complete)
              = Inr ?st"
    by (simp add: read_properties_file_def config_contains_def missing_keys_def
          required_keys_def has_option_def get_option_def int_option_def and_then_def
          example_complete_def example_int_def)
  from t have "read_properties_file example_int ''config.properties'' (Parsed example_complete)
                 = Inr ?st \<longrightarrow>
      (\<exists>config port_text. Parsed example_complete = Parsed config
         \<and> (\<forall>key \<in> set required_keys. has_option config key)
         \<and> get_option config ''db_host'' = Inr (db_host ?st)
         \<and> get_option config ''db_port'' = Inr port_text
         \<and> example_int port_text = Inr (db_port ?st)
         \<and> get_option config ''db_user'' = Inr (db_user ?st)
         \<and> get_option config ''db_password'' = Inr (db_password ?st)
         \<and> get_option config ''db_name'' = Inr (db_name ?st)
         \<and> get_option config ''gemini_api_key'' = Inr (gemini_api_key ?st))"
    by (rule conjunct1)
  with ok have 1: "get_option example_complete ''db_host'' = Inr ''localhost''" by auto
  have a: "\<exists>key \<in> set required_keys. \<not> has_option example_partial key"
    by (simp add: required_keys_def has_option_def example_partial_def)
  from t have "(\<exists>key \<in> set required_keys. \<not> has_option example_partial key) \<longrightarrow>
        (\<exists>e. read_properties_file example_int ''config.properties'' (Parsed example_partial)
               = Inl e)"
    by (rule conjunct2)
  with a have 2: "\<exists>e. read_properties_file example_int ''config.properties''
                        (Parsed example_partial) = Inl e"
    by (rule rev_mp)
  from ok 1 2 show ?thesis by (intro conjI)
qed

text \<open>
  A value the parser cannot interpolate makes the loader fail although every required key
  is present.
\<close>

lemma read_properties_file_interpolation_fails:
  "read_properties_file example_int ''config.properties'' (Parsed example_percent)
     = Inl (InterpolationError ''p%ss'')"
  by (simp add: read_properties_file_def config_contains_def missing_keys_def
        required_keys_def has_option_def get_option_def int_option_def and_then_def
        example_percent_def example_int_def)

section \<open>Properties of the response normalizer\<close>





lemma format_and_display_response_cases:
  "format_and_display_response ev response w =
     (if \<not> truthy response then Inr (Warning ''No data available.'', w)
      else case response_frame ev response of
             Inl e \<Rightarrow> Inl e
           | Inr df \<Rightarrow>
               (case st_dataframe ev df of
                  Some e \<Rightarrow> Inl e
                | None \<Rightarrow> Inr (Table df, w\<lparr>export_data := Some df\<rparr>)))"
  by (simp add: format_and_display_response_def and_then_def)

lemma format_and_display_response_built:
  assumes "truthy response" and "response_frame ev response = Inr df"
  shows "format_and_display_response ev response w =
           (case st_dataframe ev df of
              Some e \<Rightarrow> Inl e
            | None \<Rightarrow> Inr (Table df, w\<lparr>export_data := Some df\<rparr>))"
  using assms by (simp add: format_and_display_response_cases)

text \<open>
  A response that tests false (\<open>None\<close>, \<open>False\<close>, \<open>0\<close>, the empty string, an empty list,
  tuple or dict) gets the notice and no table; nothing is raised and the session is left as
  it was.
\<close>

lemma format_and_display_response_falsy:
  "\<not> truthy response \<Longrightarrow>
     format_and_display_response ev response w = Inr (Warning ''No data available.'', w)"
  by (simp add: format_and_display_response_def)




text \<open>
  C5, as stated, fails: a list of two plain strings gives a table of two rows, not one.
\<close>

theorem format_and_display_response_plain_list_counterexample:
  "response_frame example_env two_strings = Inr two_strings_frame
   \<and> n_rows two_strings_frame = 2
   \<and> format_and_display_response example_env two_strings example_world
       = Inr (Table two_strings_frame, example_world\<lparr>export_data := Some two_strings_frame\<rparr>)"
  by (simp add: format_and_display_response_def response_frame_def and_then_def
        frame_of_column_def two_strings_def two_strings_frame_def example_env_def)

text \<open>
  C5, amended. For a non-empty list whose first element is neither a dict nor a tuple (in
  particular a list none of whose elements is one, such as a list of plain strings),
  \<open>format_and_display_response\<close> takes the list's own last branch and builds a table with
  the single column \<open>Response\<close> and one row per element of the list; it shows and stores
  that table, unless the call that shows it raises, and then the exception leaves the
  function and nothing is stored.
\<close>

theorem format_and_display_response_plain_list:
  assumes "\<not> is_tuple x" and "\<not> is_dict x"
  shows "response_frame ev (PList (x # rest)) = Inr (frame_of_column ''Response'' (x # rest))
       \<and> columns (frame_of_column ''Response'' (x # rest)) = [Name ''Response'']
       \<and> n_rows (frame_of_column ''Response'' (x # rest)) = length (x # rest)
       \<and> format_and_display_response ev (PList (x # rest)) w
           = (case st_dataframe ev (frame_of_column ''Response'' (x # rest)) of
                Some e \<Rightarrow> Inl e
              | None \<Rightarrow>
                  Inr (Table (frame_of_column ''Response'' (x # rest)),
                       w\<lparr>export_data := Some (frame_of_column ''Response'' (x # rest))\<rparr>))"
proof -
  have b: "response_frame ev (PList (x # rest)) = Inr (frame_of_column ''Response'' (x # rest))"
    using assms by (simp add: response_frame_def)
  have t: "truthy (PList (x # rest))" by simp
  note f = format_and_display_response_built [OF t b, of w]
  have c: "columns (frame_of_column ''Response'' (x # rest)) = [Name ''Response'']"
    by (simp add: frame_of_column_def)
  have n: "n_rows (frame_of_column ''Response'' (x # rest)) = length (x # rest)"
    by (simp add: frame_of_column_def)
  from b c n f show ?thesis by (intro conjI)
qed

theorem format_and_display_response_plain_list_witness:
  "format_and_display_response example_env
       (PList [Scalar (SStr ''a''), Scalar (SInt 7), Scalar SNone]) example_world
     = Inr (Table \<lparr> columns = [Name ''Response''], n_rows = 3,
                     built_from = PList [Scalar (SStr ''a''), Scalar (SInt 7), Scalar SNone] \<rparr>,
            example_world\<lparr>export_data := Some \<lparr> columns = [Name ''Response''], n_rows = 3,
                     built_from = PList [Scalar (SStr ''a''), Scalar (SInt 7), Scalar SNone] \<rparr>\<rparr>)
   \<and> format_and_display_response example_env_no_display
       (PList [Scalar (SStr ''a''), Scalar (SInt 7), Scalar SNone]) example_world
     = Inl (Raised ''OverflowError'' ''int too big to convert'')"
proof -
  have t: "\<not> is_tuple (Scalar (SStr ''a''))" by simp
  have d: "\<not> is_dict (Scalar (SStr ''a''))" by simp
  note p = format_and_display_response_plain_list [OF t d, of _ "[Scalar (SInt 7), Scalar SNone]"]
  from p [of example_env example_world]
  have 1: "format_and_display_response example_env
       (PList [Scalar (SStr ''a''), Scalar (SInt 7), Scalar SNone]) example_world
     = Inr (Table \<lparr> columns = [Name ''Response''], n_rows = 3,
                     built_from = PList [Scalar (SStr ''a''), Scalar (SInt 7), Scalar SNone] \<rparr>,
            example_world\<lparr>export_data := Some \<lparr> columns = [Name ''Response''], n_rows = 3,
                     built_from = PList [Scalar (SStr ''a''), Scalar (SInt 7), Scalar SNone] \<rparr>\<rparr>)"
    by (simp add: example_env_def frame_of_column_def)
  from p [of example_env_no_display example_world]
  have 2: "format_and_display_response example_env_no_display
       (PList [Scalar (SStr ''a''), Scalar (SInt 7), Scalar SNone]) example_world
     = Inl (Raised ''OverflowError'' ''int too big to convert'')"
    by (simp add: example_env_no_display_def frame_of_column_def)
  from 1 2 show ?thesis by (intro conjI)
qed

text \<open>
  C9. The function inspects only \<open>response[0]\<close> before it hands the whole list to pandas.
  On a list that starts with a dict and goes on with an integer the table constructor
  raises (an \<open>AttributeError\<close> in pandas 2.x), so the function raises instead of producing
  a table.
\<close>

theorem format_and_display_response_mixed_list_raises:
  "format_and_display_response example_env mixed_list example_world
     = Inl (Raised ''AttributeError''
              (quoted ''int'' @ '' object has no attribute '' @ quoted ''keys''))"
  by (simp add: format_and_display_response_def response_frame_def and_then_def
        frame_of_dicts_def mixed_list_def example_env_def)

text \<open>Whatever exception the library raises there, the function raises it.\<close>

lemma format_and_display_response_mixed_list_raises_any:
  "format_and_display_response ev mixed_list w = Inl (keys_error ev (Scalar (SInt 5)))"
  by (simp add: format_and_display_response_def response_frame_def and_then_def
        frame_of_dicts_def mixed_list_def)

section \<open>Properties of the session loop\<close>

lemma on_exception_fields:
  "history (on_exception ev e w) = history w @ [''**Bot:** '' @ error_message e]"
  "error_log (on_exception ev e w) = error_log w @ [[CHR 0x0A] @ format_exc ev e @ [CHR 0x0A]]"
  "export_data (on_exception ev e w) = export_data w"
  "run_calls (on_exception ev e w) = run_calls w"
  "chatbot_image (on_exception ev e w) = chatbot_image w"
  by (simp_all add: on_exception_def append_history_def)

lemma append_history_fields:
  "history (append_history m w) = history w @ [m]"
  "error_log (append_history m w) = error_log w"
  "export_data (append_history m w) = export_data w"
  "run_calls (append_history m w) = run_calls w"
  "chatbot_image (append_history m w) = chatbot_image w"
  by (simp_all add: append_history_def)

lemma turn_raise:
  "run text = Inl e \<Longrightarrow>
     turn ev run text w = on_exception ev e (w\<lparr>run_calls := run_calls w @ [text]\<rparr>)"
  by (simp add: turn_def)

lemma turn_run_calls: "run_calls (turn ev run text w) = run_calls w @ [text]"
  by (simp add: turn_def Let_def on_exception_fields append_history_fields
        format_and_display_response_cases split: sum.splits option.splits)

lemma turn_export_data:
  "export_data (turn ev run text w) =
     (case run text of
        Inl e \<Rightarrow> export_data w
      | Inr response \<Rightarrow>
          if (is_list response \<or> is_tuple response \<or> is_dict response) \<and> truthy response
          then (case response_frame ev response of
                  Inl e \<Rightarrow> export_data w
                | Inr df \<Rightarrow>
                    (case st_dataframe ev df of
                       Some e \<Rightarrow> export_data w
                     | None \<Rightarrow> Some df))
          else export_data w)"
  by (simp add: turn_def Let_def on_exception_fields append_history_fields
        format_and_display_response_cases split: sum.splits option.splits)

lemma image_available:
  "chatbot_image w \<noteq> None \<or> image_file ev \<noteq> None \<Longrightarrow>
     \<exists>img. (if chatbot_image w = None then image_file ev else chatbot_image w) = Some img"
  by (cases "chatbot_image w") auto

lemma main_submit:
  assumes "chain ev = Inr run"
      and "(if chatbot_image w = None then image_file ev else chatbot_image w) = Some img"
      and "submit_button u" and "strip (user_input u) \<noteq> []"
  shows "main ev u w = (Rerun, turn ev run (user_input u) (w\<lparr>chatbot_image := Some img\<rparr>))"
  using assms by (simp add: main_def Let_def)

text \<open>
  C7. When the page renders (the chain was built and the logo is cached or readable), the
  user sends a text that is not blank and \<open>db_chain.run\<close> raises: the run ends in
  \<open>st.rerun()\<close>, the history has gained as its last entry the Bot turn with the error text,
  the error log has gained exactly one block at its end, and the session goes on: the next
  submission is again passed to \<open>db_chain.run\<close>. (The write to the log file is taken to
  succeed.)
\<close>

theorem main_run_raises:
  assumes "chain ev = Inr run"
      and "chatbot_image w \<noteq> None \<or> image_file ev \<noteq> None"
      and "submit_button u" and "strip (user_input u) \<noteq> []"
      and "run (user_input u) = Inl e"
  shows "fst (main ev u w) = Rerun
       \<and> history (snd (main ev u w))
           = history w @ [''**Bot:** '' @ cross_mark @ '' Error: '' @ exn_str e]
       \<and> error_log (snd (main ev u w))
           = error_log w @ [[CHR 0x0A] @ format_exc ev e @ [CHR 0x0A]]
       \<and> (\<forall>u'. submit_button u' \<and> strip (user_input u') \<noteq> [] \<longrightarrow>
             fst (main ev u' (snd (main ev u w))) = Rerun
           \<and> run_calls (snd (main ev u' (snd (main ev u w))))
               = run_calls (snd (main ev u w)) @ [user_input u'])"
proof -
  from assms(2) obtain img where
    img: "(if chatbot_image w = None then image_file ev else chatbot_image w) = Some img"
    using image_available by blast
  let ?w1 = "w\<lparr>chatbot_image := Some img\<rparr>"
  let ?w' = "on_exception ev e (?w1\<lparr>run_calls := run_calls ?w1 @ [user_input u]\<rparr>)"
  have m: "main ev u w = (Rerun, ?w')"
    using main_submit [OF assms(1) img assms(3) assms(4)]
          turn_raise [of run "user_input u" e, OF assms(5)]
    by simp
  have 1: "fst (main ev u w) = Rerun" using m by simp
  have 2: "history (snd (main ev u w))
           = history w @ [''**Bot:** '' @ cross_mark @ '' Error: '' @ exn_str e]"
    using m by (simp add: on_exception_fields error_message_def)
  have 3: "error_log (snd (main ev u w))
           = error_log w @ [[CHR 0x0A] @ format_exc ev e @ [CHR 0x0A]]"
    using m by (simp add: on_exception_fields)
  have ci: "chatbot_image ?w' = Some img" by (simp add: on_exception_fields)
  have 4: "\<forall>u'. submit_button u' \<and> strip (user_input u') \<noteq> [] \<longrightarrow>
             fst (main ev u' (snd (main ev u w))) = Rerun
           \<and> run_calls (snd (main ev u' (snd (main ev u w))))
               = run_calls (snd (main ev u w)) @ [user_input u']"
  proof (intro allI impI)
    fix u' :: ui assume s: "submit_button u' \<and> strip (user_input u') \<noteq> []"
    have i': "(if chatbot_image ?w' = None then image_file ev else chatbot_image ?w') = Some img"
      using ci by simp
    have "main ev u' ?w'
            = (Rerun, turn ev run (user_input u') (?w'\<lparr>chatbot_image := Some img\<rparr>))"
      using s by (intro main_submit [OF assms(1) i']) simp_all
    then show "fst (main ev u' (snd (main ev u w))) = Rerun
           \<and> run_calls (snd (main ev u' (snd (main ev u w))))
               = run_calls (snd (main ev u w)) @ [user_input u']"
      using m by (simp add: turn_run_calls)
  qed
  from 1 2 3 4 show ?thesis by (intro conjI)
qed

theorem main_run_raises_witness:
  "fst (main example_env (send ''boom'') example_world) = Rerun
   \<and> history (snd (main example_env (send ''boom'') example_world))
       = [''**You:** count'', ''**Bot:** (See table below)'',
          ''**Bot:** '' @ cross_mark @ '' Error: db down'']
   \<and> error_log (snd (main example_env (send ''boom'') example_world))
       = [[CHR 0x0A] @ ''Traceback (most recent call last): RuntimeError: db down''
            @ [CHR 0x0A]]"
proof -
  have c: "chain example_env = Inr example_run" by (simp add: example_env_def)
  have i: "chatbot_image example_world \<noteq> None \<or> image_file example_env \<noteq> None"
    by (simp add: example_world_def)
  have s: "submit_button (send ''boom'')" by (simp add: send_def)
  have n: "strip (user_input (send ''boom'')) \<noteq> []"
    by (simp add: send_def strip_def is_space_def is_cont_def)
  have r: "example_run (user_input (send ''boom'')) = Inl (Raised ''RuntimeError'' ''db down'')"
    by (simp add: send_def example_run_def)
  from main_run_raises [OF c i s n r] show ?thesis
    by (simp add: example_world_def example_env_def)
qed

text \<open>
  C2. The page calls \<open>db_chain.run\<close> first and appends the user's turn only after it has
  returned. On the question \<open>boom\<close>, for which \<open>run\<close> raises, \<open>run\<close> was invoked and the
  history gains the Bot turn with the error, but no turn of the user.
\<close>

theorem main_run_raises_user_turn_missing:
  "history (snd (main example_env (send ''boom'') example_world))
     = [''**You:** count'', ''**Bot:** (See table below)'',
        ''**Bot:** '' @ cross_mark @ '' Error: db down'']
   \<and> run_calls (snd (main example_env (send ''boom'') example_world)) = [''count'', ''boom'']"
  by (simp add: main_def example_env_def example_world_def send_def strip_def is_space_def
        is_cont_def turn_def example_run_def on_exception_def append_history_def
        error_message_def)

text \<open>
  C10. A run in which the text box is empty or holds only whitespace, and in which the
  Clear Chat button was not the one pressed, changes nothing: \<open>db_chain.run\<close> is not
  invoked, the history, the export buffer and the error log are as before, and once the
  logo is cached (as it is whenever a button could be pressed) the whole session state is
  as before. This holds whether or not the Send button was pressed.
\<close>

theorem main_blank_submission:
  assumes "strip (user_input u) = []" and "\<not> clear_button u"
  shows "run_calls (snd (main ev u w)) = run_calls w
       \<and> history (snd (main ev u w)) = history w
       \<and> export_data (snd (main ev u w)) = export_data w
       \<and> error_log (snd (main ev u w)) = error_log w
       \<and> (chatbot_image w \<noteq> None \<longrightarrow> snd (main ev u w) = w)"
  using assms
  by (cases "chatbot_image w")
     (simp_all add: main_def Let_def split: sum.splits option.splits)

theorem main_blank_submission_witness:
  "main example_env (send ''  '') example_world = (Finished (Some example_frame), example_world)"
proof -
  have b: "strip (user_input (send ''  '')) = []"
    by (simp add: send_def strip_def is_space_def is_cont_def)
  have c: "\<not> clear_button (send ''  '')" by (simp add: send_def)
  have "snd (main example_env (send ''  '') example_world) = example_world"
    using main_blank_submission [OF b c, of example_env example_world]
    by (simp add: example_world_def)
  moreover have "fst (main example_env (send ''  '') example_world)
                   = Finished (Some example_frame)"
    using b by (simp add: main_def example_env_def example_world_def send_def export_to_excel_def)
  ultimately show ?thesis by (simp add: prod_eq_iff)
qed

text \<open>
  C1, as stated, fails: after Clear Chat the history is empty, but the export buffer still
  holds the table of the earlier turn.
\<close>

theorem main_clear_keeps_export_counterexample:
  "history (snd (main example_env clear_chat example_world)) = []
   \<and> export_data (snd (main example_env clear_chat example_world)) = Some example_frame"
  by (simp add: main_def example_env_def example_world_def clear_chat_def)

text \<open>
  C1, amended. When the page renders and Clear Chat is pressed (in a run that does not
  process a submission), whatever the session state was, the run ends in \<open>st.rerun()\<close> with
  an empty history; the export buffer is left as it was.
\<close>

theorem main_clear_chat:
  assumes "chain ev = Inr run"
      and "chatbot_image w \<noteq> None \<or> image_file ev \<noteq> None"
      and "clear_button u"
      and "\<not> (submit_button u \<and> strip (user_input u) \<noteq> [])"
  shows "fst (main ev u w) = Rerun
       \<and> history (snd (main ev u w)) = []
       \<and> export_data (snd (main ev u w)) = export_data w"
proof -
  from assms(2) obtain img where
    "(if chatbot_image w = None then image_file ev else chatbot_image w) = Some img"
    using image_available by blast
  with assms(1,3,4) have "main ev u w = (Rerun, w\<lparr>chatbot_image := Some img, history := []\<rparr>)"
    by (cases "submit_button u") (simp_all add: main_def Let_def)
  then show ?thesis by simp
qed

theorem main_clear_chat_witness:
  "fst (main example_env clear_chat example_world) = Rerun
   \<and> history (snd (main example_env clear_chat example_world)) = []
   \<and> export_data (snd (main example_env clear_chat example_world)) = Some example_frame"
proof -
  have c: "chain example_env = Inr example_run" by (simp add: example_env_def)
  have i: "chatbot_image example_world \<noteq> None \<or> image_file example_env \<noteq> None"
    by (simp add: example_world_def)
  have b: "clear_button clear_chat" by (simp add: clear_chat_def)
  have n: "\<not> (submit_button clear_chat \<and> strip (user_input clear_chat) \<noteq> [])"
    by (simp add: clear_chat_def)
  from main_clear_chat [OF c i b n] show ?thesis by (simp add: example_world_def)
qed

text \<open>
  C4, as stated, fails: a turn answered with a plain sentence displays no table, and the
  export buffer still holds the table of the earlier turn.
\<close>

theorem main_scalar_turn_keeps_export_counterexample:
  "history (snd (main example_env (send ''hello'') example_world))
     = [''**You:** count'', ''**Bot:** (See table below)'',
        ''**You:** hello'', ''**Bot:** Hi there'']
   \<and> export_data (snd (main example_env (send ''hello'') example_world)) = Some example_frame"
  by (simp add: main_def example_env_def example_world_def send_def strip_def is_space_def
        is_cont_def turn_def example_run_def append_history_def)

text \<open>
  C4, amended. A submission turn that displays a table overwrites the export buffer with
  that table; a turn that displays none leaves the buffer as it was, so the buffer can
  retain the table of an earlier turn. A turn displays a table when \<open>db_chain.run\<close> returns
  a non-empty list, tuple or dict, the table is built from it, and the call that shows it
  does not raise; it displays none when \<open>run\<close> raises, returns a scalar or an empty value,
  or when building or showing the table raises.
\<close>

theorem main_submit_export_data:
  assumes "chain ev = Inr run"
      and "chatbot_image w \<noteq> None \<or> image_file ev \<noteq> None"
      and "submit_button u" and "strip (user_input u) \<noteq> []"
  shows "export_data (snd (main ev u w)) =
     (case run (user_input u) of
        Inl e \<Rightarrow> export_data w
      | Inr response \<Rightarrow>
          if (is_list response \<or> is_tuple response \<or> is_dict response) \<and> truthy response
          then (case response_frame ev response of
                  Inl e \<Rightarrow> export_data w
                | Inr df \<Rightarrow>
                    (case st_dataframe ev df of
                       Some e \<Rightarrow> export_data w
                     | None \<Rightarrow> Some df))
          else export_data w)"
proof -
  from assms(2) obtain img where
    img: "(if chatbot_image w = None then image_file ev else chatbot_image w) = Some img"
    using image_available by blast
  have "export_data (snd (main ev u w))
          = export_data (turn ev run (user_input u) (w\<lparr>chatbot_image := Some img\<rparr>))"
    using main_submit [OF assms(1) img assms(3) assms(4)] by simp
  then show ?thesis by (simp add: turn_export_data split: sum.splits option.splits)
qed

theorem main_submit_export_data_witness:
  "export_data (snd (main example_env (send ''count'') (example_world\<lparr>export_data := None\<rparr>)))
     = Some example_frame
   \<and> export_data (snd (main example_env_no_display (send ''count'') example_world))
     = Some example_frame
   \<and> export_data (snd (main example_env_no_display (send ''count'')
                          (example_world\<lparr>export_data := None\<rparr>)))
     = None"
proof -
  have c: "chain example_env = Inr example_run" by (simp add: example_env_def)
  have c': "chain example_env_no_display = Inr example_run"
    by (simp add: example_env_no_display_def example_env_def)
  have i1: "chatbot_image (example_world\<lparr>export_data := None\<rparr>) \<noteq> None
             \<or> image_file example_env \<noteq> None"
    by (simp add: example_world_def)
  have i2: "chatbot_image example_world \<noteq> None \<or> image_file example_env_no_display \<noteq> None"
    by (simp add: example_world_def)
  have i3: "chatbot_image (example_world\<lparr>export_data := None\<rparr>) \<noteq> None
             \<or> image_file example_env_no_display \<noteq> None"
    by (simp add: example_world_def)
  have s: "submit_button (send ''count'')" by (simp add: send_def)
  have n: "strip (user_input (send ''count'')) \<noteq> []"
    by (simp add: send_def strip_def is_space_def is_cont_def)
  have f: "response_frame ev (PList [PDict [(''count'', Scalar (SInt 42))]]) = Inr example_frame"
    for ev
    by (simp add: response_frame_def frame_of_dicts_def and_then_def first_seen_def
          example_frame_def)
  have d: "st_dataframe example_env example_frame = None" by (simp add: example_env_def)
  have d': "st_dataframe example_env_no_display example_frame
              = Some (Raised ''OverflowError'' ''int too big to convert'')"
    by (simp add: example_env_no_display_def)
  from main_submit_export_data [OF c i1 s n]
  have 1: "export_data (snd (main example_env (send ''count'')
                               (example_world\<lparr>export_data := None\<rparr>)))
             = Some example_frame"
    by (simp add: send_def example_run_def f d)
  from main_submit_export_data [OF c' i2 s n]
  have 2: "export_data (snd (main example_env_no_display (send ''count'') example_world))
             = Some example_frame"
    by (simp add: send_def example_run_def f d' example_world_def)
  from main_submit_export_data [OF c' i3 s n]
  have 3: "export_data (snd (main example_env_no_display (send ''count'')
                               (example_world\<lparr>export_data := None\<rparr>)))
             = None"
    by (simp add: send_def example_run_def f d')
  from 1 2 3 show ?thesis by (intro conjI)
qed

end
